theory Spec2Isabelle
  imports Complex_Main
begin

section \<open>Values of the orders service\<close>

text \<open>
  A JSON value as \<open>JSON.parse\<close> returns it. Numbers are kept as rationals: the code only
  tests a number for zero (truthiness) and compares numbers as map keys. \<open>JObj\<close> lists the
  own properties of the object.
\<close>

datatype json =
    JNull
  | JBool bool
  | JNum rat
  | JStr string
  | JArr "json list"
  | JObj "(string \<times> json) list"

text \<open>
  The errors that the code throws or meets. \<open>ReferenceError x\<close> is what evaluating the
  undeclared identifier \<open>x\<close> throws; \<open>ServerStatus n\<close> is the error that
  \<open>fetchWithBackoff\<close> throws itself for a status of 500 or more; \<open>SERVICE_UNAVAILABLE\<close>
  is the error of the fallback with \<open>err.code = 'SERVICE_UNAVAILABLE'\<close>; \<open>EOPENBREAKER\<close>
  and \<open>ETIMEDOUT\<close> are the breaker's own errors.
\<close>

datatype js_error =
    SyntaxError
  | TypeError
  | ReferenceError string
  | FetchError
  | AbortError
  | ServerStatus nat
  | SERVICE_UNAVAILABLE
  | EOPENBREAKER
  | ETIMEDOUT
  | PrismaError string
  | AmqpError string

text \<open>
  A key of the JavaScript \<open>Map\<close>. \<open>Map\<close> compares keys with SameValueZero: primitives
  by value, objects and arrays by identity. \<open>KRef n\<close> is the identity of the \<open>n\<close>-th
  object that a parse has produced for use as a key.
\<close>

datatype key =
    KUndefined
  | KNull
  | KBool bool
  | KNum rat
  | KStr string
  | KRef nat

text \<open>The result of a property read is \<open>None\<close> for \<open>undefined\<close>.\<close>

fun get_prop :: "json \<Rightarrow> string \<Rightarrow> js_error + json option" where
  "get_prop JNull p = Inl TypeError"
| "get_prop (JObj fs) p = Inr (map_of fs p)"
| "get_prop v p = Inr None"

fun key_of :: "nat \<Rightarrow> json option \<Rightarrow> key" where
  "key_of r None = KUndefined"
| "key_of r (Some JNull) = KNull"
| "key_of r (Some (JBool b)) = KBool b"
| "key_of r (Some (JNum n)) = KNum n"
| "key_of r (Some (JStr s)) = KStr s"
| "key_of r (Some (JArr xs)) = KRef r"
| "key_of r (Some (JObj fs)) = KRef r"

fun primitive :: "json option \<Rightarrow> bool" where
  "primitive (Some (JArr xs)) = False"
| "primitive (Some (JObj fs)) = False"
| "primitive v = True"

fun truthy :: "json option \<Rightarrow> bool" where
  "truthy None = False"
| "truthy (Some JNull) = False"
| "truthy (Some (JBool b)) = b"
| "truthy (Some (JNum n)) = (n \<noteq> 0)"
| "truthy (Some (JStr s)) = (s \<noteq> [])"
| "truthy (Some v) = True"

section \<open>The event consumer\<close>

text \<open>
  The handler reads the content of a message only through
  \<open>JSON.parse(msg.content.toString())\<close>, so a content is modelled by what that call
  yields: the value it parses to, or a text that is not JSON.
\<close>

datatype content = JSON_text json | Malformed string

fun JSON_parse :: "content \<Rightarrow> js_error + json" where
  "JSON_parse (JSON_text v) = Inr v"
| "JSON_parse (Malformed s) = Inl SyntaxError"

record message =
  delivery_tag :: nat
  content :: content

text \<open>
  What the service does to the outside: acknowledgements on the channel
  (\<open>Nack tag allUpTo requeue\<close>), published events, writes committed by the database and
  lines of \<open>console.error\<close>. Lines of \<open>console.log\<close> and \<open>console.warn\<close> are left out.
\<close>

datatype effect =
    Ack nat
  | Nack nat bool bool
  | Published string json
  | DbWrite string json
  | ConsoleError string js_error

record orders_service =
  userCache :: "key \<rightharpoonup> json"
  next_ref :: nat
  amqp_ch :: bool
  effects :: "effect list"

text \<open>The body of the \<open>try\<close> block of the handler, lines 61 to 65.\<close>

definition consume_try :: "orders_service \<Rightarrow> message \<Rightarrow> js_error + orders_service" where
  "consume_try st msg =
     (case JSON_parse (content msg) of
        Inl e \<Rightarrow> Inl e
      | Inr user \<Rightarrow>
          (case get_prop user ''id'' of
             Inl e \<Rightarrow> Inl e
           | Inr i \<Rightarrow>
               Inr (st\<lparr>userCache := (userCache st)(key_of (next_ref st) i \<mapsto> user),
                       next_ref := Suc (next_ref st),
                       effects := effects st @ [Ack (delivery_tag msg)]\<rparr>)))"

text \<open>The handler given to \<open>amqp.ch.consume\<close>, lines 58 to 70; \<open>None\<close> is a null message.\<close>

definition consume_handler :: "message option \<Rightarrow> orders_service \<Rightarrow> orders_service" where
  "consume_handler m st =
     (case m of
        None \<Rightarrow> st
      | Some msg \<Rightarrow>
          (case consume_try st msg of
             Inr st' \<Rightarrow> st'
           | Inl err \<Rightarrow>
               st\<lparr>effects := effects st @
                      [ConsoleError ''[orders] consume error:'' err,
                       Nack (delivery_tag msg) False False]\<rparr>))"

section \<open>The retrier\<close>

definition BASE_HTTP_RETRY_DELAY :: nat where
  "BASE_HTTP_RETRY_DELAY = 500"

definition MAX_HTTP_RETRIES :: nat where
  "MAX_HTTP_RETRIES = 3"

text \<open>
  A response of the users service: its status and its body as \<open>resp.json()\<close> reads it,
  \<open>None\<close> for a body that is not JSON.
\<close>

record response =
  status :: nat
  body :: "json option"

text \<open>
  What one \<open>fetch\<close> under the abort timer comes to: a response, a transport error, or the
  abort after \<open>ms\<close> milliseconds. The network is a function from the index of the attempt
  within the call, from 0, to what that attempt meets; the random source gives the value
  of the call of \<open>Math.random()\<close> made after that attempt, a rational in the unit interval.
\<close>

datatype attempt = Responds response | TransportFails | TimesOut

type_synonym network = "nat \<Rightarrow> attempt"

type_synonym random = "nat \<Rightarrow> rat"

text \<open>The body of the \<open>try\<close> block, lines 88 to 98.\<close>

fun try_fetch :: "attempt \<Rightarrow> js_error + response" where
  "try_fetch TransportFails = Inl FetchError"
| "try_fetch TimesOut = Inl AbortError"
| "try_fetch (Responds res) =
     (if status res \<ge> 500 then Inl (ServerStatus (status res)) else Inr res)"

text \<open>
  Line 109: \<open>Math.floor(Math.random() * 200)\<close>. The product is taken exactly, where the
  code rounds it to a double: for a draw whose exact product lies just below an integer
  the code's jitter can be one more than this one. Both lie between 0 and 199.
\<close>

definition jitter :: "rat \<Rightarrow> nat" where
  "jitter r = nat \<lfloor>r * 200\<rfloor>"

text \<open>
  A run of the retrier: how the promise settles (\<open>Inr None\<close> is a return of
  \<open>undefined\<close>), how many times \<open>fetch\<close> was called, and the sleeps in milliseconds, in
  order.
\<close>

record fetch_run =
  settled :: "js_error + response option"
  attempts :: nat
  sleeps :: "nat list"

text \<open>
  The \<open>for\<close> loop of \<open>fetchWithBackoff\<close>, lines 85 to 115, from the counter \<open>retries\<close>
  on. The \<open>catch\<close> clause binds \<open>error\<close> and line 105 throws \<open>err\<close>, an identifier that
  no enclosing scope of the module declares.
\<close>

function fetch_loop :: "network \<Rightarrow> random \<Rightarrow> nat \<Rightarrow> nat list \<Rightarrow> fetch_run" where
  "fetch_loop net rnd retries slept =
     (if retries < MAX_HTTP_RETRIES then
        (case try_fetch (net retries) of
           Inr res \<Rightarrow>
             \<lparr>settled = Inr (Some res), attempts = Suc retries, sleeps = slept\<rparr>
         | Inl error \<Rightarrow>
             if retries = MAX_HTTP_RETRIES - 1 then
               \<lparr>settled = Inl (ReferenceError ''err''), attempts = Suc retries, sleeps = slept\<rparr>
             else
               fetch_loop net rnd (Suc retries)
                 (slept @ [BASE_HTTP_RETRY_DELAY * 2 ^ retries + jitter (rnd retries)]))
      else \<lparr>settled = Inr None, attempts = retries, sleeps = slept\<rparr>)"
  by pat_completeness auto
termination
  by (relation "measure (\<lambda>(net, rnd, retries, slept). MAX_HTTP_RETRIES - retries)") auto

definition fetchWithBackoff :: "network \<Rightarrow> random \<Rightarrow> fetch_run" where
  "fetchWithBackoff net rnd = fetch_loop net rnd 0 []"

text \<open>\<open>resp.ok\<close>: the status is in the range 200 to 299.\<close>

definition ok :: "response \<Rightarrow> bool" where
  "ok resp = (200 \<le> status resp \<and> status resp \<le> 299)"

text \<open>The text of line 135, without its accents.\<close>

definition invalid_user :: string where
  "invalid_user = ''usuario invalido''"

text \<open>\<open>callUserService\<close>, lines 127 to 139.\<close>

definition callUserService :: "network \<Rightarrow> random \<Rightarrow> js_error + json" where
  "callUserService net rnd =
     (case settled (fetchWithBackoff net rnd) of
        Inl e \<Rightarrow> Inl e
      | Inr None \<Rightarrow> Inl TypeError
      | Inr (Some resp) \<Rightarrow>
          if \<not> ok resp then
            Inr (JObj [(''error'', JStr invalid_user), (''status'', JNum (of_nat (status resp)))])
          else (case body resp of None \<Rightarrow> Inl SyntaxError | Some v \<Rightarrow> Inr v))"

section \<open>The breaker and its fallback\<close>

text \<open>The function given to \<open>breaker.fallback\<close>, lines 152 to 160: it reads the cache.\<close>

definition fallback :: "orders_service \<Rightarrow> key \<Rightarrow> js_error + json" where
  "fallback st userId =
     (case userCache st userId of
        Some user \<Rightarrow> Inr user
      | None \<Rightarrow> Inl SERVICE_UNAVAILABLE)"

datatype breaker_state = CLOSED | OPEN | HALF_OPEN

text \<open>
  The breaker as a call meets it: its state, whether the single trial call of
  \<open>HALF_OPEN\<close> has been let through already, and whether its timer of
  \<open>HTTP_TIMEOUT_MS * (MAX_HTTP_RETRIES + 1)\<close> milliseconds runs out before the wrapped
  call settles. What decides the last is the timing of the call; \<open>timer_runs_out\<close> below
  computes it from the time that every attempt takes.
\<close>

record breaker =
  state :: breaker_state
  trial_taken :: bool
  timer_first :: bool

text \<open>
  The calls that the breaker answers without calling the wrapped function: all in
  \<open>OPEN\<close>, and in \<open>HALF_OPEN\<close> all but the single trial call.
\<close>

definition short_circuits :: "breaker \<Rightarrow> bool" where
  "short_circuits b = (state b = OPEN \<or> state b = HALF_OPEN \<and> trial_taken b)"

record fired =
  result :: "js_error + json"
  fallback_invoked :: bool

text \<open>
  Modelled from the spec: the dispatch of \<open>breaker.fire\<close>. The breaker is an object of the
  library opossum, which is not among the sources; the wrapped function and the fallback
  are the source's. In \<open>CLOSED\<close> the breaker calls the wrapped function, and in
  \<open>HALF_OPEN\<close> it lets a single trial call through. On any failure path (the breaker
  short-circuits, the wrapped call fails, or the timer runs out) it invokes the
  fallback, and the call settles as the fallback does.
\<close>

definition fire :: "breaker \<Rightarrow> network \<Rightarrow> random \<Rightarrow> orders_service \<Rightarrow> key \<Rightarrow> fired" where
  "fire b net rnd st userId =
     (if short_circuits b then \<lparr>result = fallback st userId, fallback_invoked = True\<rparr>
      else if timer_first b then \<lparr>result = fallback st userId, fallback_invoked = True\<rparr>
      else (case callUserService net rnd of
              Inl e \<Rightarrow> \<lparr>result = fallback st userId, fallback_invoked = True\<rparr>
            | Inr v \<Rightarrow> \<lparr>result = Inr v, fallback_invoked = False\<rparr>))"

section \<open>The routes of the orders service\<close>

text \<open>
  How a route handler ends: with the response it sent (the argument of \<open>res.status\<close> and
  the argument of \<open>res.json\<close>), or with its promise rejected before any response was
  written.
\<close>

datatype reply = Replied json json | Rejected js_error

text \<open>What a write through the database client and a publish on the channel come to.\<close>

datatype db_outcome = DbReturns json | DbThrows js_error

datatype publish_outcome = PublishReturns | PublishThrows js_error

text \<open>
  Modelled from the spec: the table \<open>ROUTING_KEYS\<close> of \<open>common/events.js\<close>, which is not
  among the sources; the spec names the routing keys \<open>user.created\<close>, \<open>order.created\<close>
  and \<open>order.cancelled\<close>.
\<close>

definition USER_CREATED :: string where
  "USER_CREATED = ''user.created''"

definition ORDER_CREATED :: string where
  "ORDER_CREATED = ''order.created''"

definition ORDER_CANCELLED :: string where
  "ORDER_CANCELLED = ''order.cancelled''"

text \<open>
  The publish block after a committed write (orders lines 194 to 201 and 228 to 235,
  users lines 53 to 62): the effects it adds, given whether \<open>amqp?.ch\<close> is set.
\<close>

definition publish_block ::
    "bool \<Rightarrow> string \<Rightarrow> string \<Rightarrow> publish_outcome \<Rightarrow> json \<Rightarrow> effect list" where
  "publish_block ch service routing_key pub payload =
     (if ch then
        (case pub of
           PublishReturns \<Rightarrow> [Published routing_key payload]
         | PublishThrows err \<Rightarrow> [ConsoleError (service @ '' publish error:'') err])
      else [])"

text \<open>
  The properties that a handler destructures from \<open>req.body || {}\<close>: those of an object,
  and \<open>undefined\<close> for every other body.
\<close>

fun body_field :: "json option \<Rightarrow> string \<Rightarrow> json option" where
  "body_field (Some (JObj fs)) p = map_of fs p"
| "body_field b p = None"

fun isArray :: "json option \<Rightarrow> bool" where
  "isArray (Some (JArr xs)) = True"
| "isArray v = False"

fun isNumber :: "json option \<Rightarrow> bool" where
  "isNumber (Some (JNum n)) = True"
| "isNumber v = False"

fun or_null :: "json option \<Rightarrow> json" where
  "or_null None = JNull"
| "or_null (Some v) = v"

text \<open>What a request to \<open>POST /\<close> meets outside the service.\<close>

record post_env =
  breaker_now :: breaker
  upstream :: network
  random_src :: random
  nanoid :: string
  prisma :: db_outcome
  publish :: publish_outcome

text \<open>
  Lines 178 to 209: the \<open>try\<close> block around the write. Its \<open>catch\<close> clause binds
  \<open>error\<close> and reads \<open>err.code\<close> first.
\<close>

definition create_order ::
    "post_env \<Rightarrow> json option \<Rightarrow> json option \<Rightarrow> json option \<Rightarrow> orders_service
       \<Rightarrow> reply \<times> orders_service" where
  "create_order env userId items total' st =
     (case prisma env of
        DbThrows error \<Rightarrow> (Rejected (ReferenceError ''err''), st)
      | DbReturns order \<Rightarrow>
          (Replied (JNum 201) order,
           st\<lparr>effects := effects st @
                 [DbWrite ''order.create''
                    (JObj [(''id'', JStr (''o_'' @ nanoid env)), (''userId'', or_null userId),
                           (''items'', or_null items), (''total'', or_null total')])] @
                 publish_block (amqp_ch st) ''[orders]'' ORDER_CREATED (publish env) order\<rparr>))"

text \<open>
  The handler of \<open>POST /\<close>, lines 167 to 210. The test of line 169 is written with its
  branches exchanged, and the text of line 170 without its accents. The call of
  \<open>breaker.fire\<close> on line 173 is outside every \<open>try\<close> block.
\<close>

definition post_order :: "post_env \<Rightarrow> json option \<Rightarrow> orders_service \<Rightarrow> reply \<times> orders_service" where
  "post_order env req_body st =
     (let userId = body_field req_body ''userId'';
          items = body_field req_body ''items'';
          total' = body_field req_body ''total''
      in if truthy userId \<and> isArray items \<and> isNumber total' then
           (case result (fire (breaker_now env) (upstream env) (random_src env) st
                           (key_of (next_ref st) userId)) of
              Inl e \<Rightarrow> (Rejected e, st)
            | Inr user \<Rightarrow>
                (case get_prop user ''error'' of
                   Inl e \<Rightarrow> (Rejected e, st)
                 | Inr user_error \<Rightarrow>
                     if truthy user_error then
                       (case get_prop user ''status'' of
                          Inl e \<Rightarrow> (Rejected e, st)
                        | Inr user_status \<Rightarrow>
                            (Replied (if truthy user_status then or_null user_status else JNum 400)
                               (JObj [(''error'', or_null user_error)]), st))
                     else create_order env userId items total' st))
         else
           (Replied (JNum 400)
              (JObj [(''error'', JStr ''userId, items[], total<number> sao obrigatorios'')]), st))"

text \<open>The handler of \<open>DELETE /:id\<close>, lines 212 to 243.\<close>

record delete_env =
  prisma_update :: db_outcome
  publish_cancel :: publish_outcome

definition cancel_order :: "delete_env \<Rightarrow> string \<Rightarrow> orders_service \<Rightarrow> reply \<times> orders_service" where
  "cancel_order env order_id st =
     (case prisma_update env of
        DbThrows error \<Rightarrow> (Rejected (ReferenceError ''err''), st)
      | DbReturns order \<Rightarrow>
          (Replied (JNum 200) (JObj [(''message'', JStr ''order cancelled''), (''id'', JStr order_id)]),
           st\<lparr>effects := effects st @
                 [DbWrite ''order.update''
                    (JObj [(''id'', JStr order_id), (''status'', JStr ''cancelled'')])] @
                 publish_block (amqp_ch st) ''[orders]'' ORDER_CANCELLED (publish_cancel env) order\<rparr>))"

text \<open>
  The requests of the orders service: \<open>POST /\<close>, \<open>DELETE /:id\<close>, \<open>GET /\<close> with the rows that
  the database returns, and \<open>GET /health\<close>.
\<close>

datatype request =
    PostOrder post_env "json option"
  | DeleteOrder delete_env string
  | ListOrders "json list"
  | Health

fun handle :: "request \<Rightarrow> orders_service \<Rightarrow> reply \<times> orders_service" where
  "handle (PostOrder env req_body) st = post_order env req_body st"
| "handle (DeleteOrder env order_id) st = cancel_order env order_id st"
| "handle (ListOrders rows) st = (Replied (JNum 200) (JArr rows), st)"
| "handle Health st =
     (Replied (JNum 200) (JObj [(''ok'', JBool True), (''service'', JStr ''orders'')]), st)"

text \<open>What the process reacts to: a delivery on the queue, or an HTTP request.\<close>

datatype event = Delivery "message option" | Http request

fun react :: "event \<Rightarrow> orders_service \<Rightarrow> orders_service" where
  "react (Delivery m) st = consume_handler m st"
| "react (Http rq) st = snd (handle rq st)"

section \<open>The users service\<close>

record users_service =
  users_amqp_ch :: bool
  users_effects :: "effect list"

record user_env =
  user_nanoid :: string
  prisma_create :: db_outcome
  publish_user :: publish_outcome

text \<open>The handler of \<open>POST /\<close> of the users service, lines 39 to 72.\<close>

definition post_user :: "user_env \<Rightarrow> json option \<Rightarrow> users_service \<Rightarrow> reply \<times> users_service" where
  "post_user env req_body st =
     (let name = body_field req_body ''name'';
          email = body_field req_body ''email''
      in if truthy name \<and> truthy email then
           (case prisma_create env of
              DbThrows error \<Rightarrow> (Rejected (ReferenceError ''err''), st)
            | DbReturns user \<Rightarrow>
                (Replied (JNum 201) user,
                 st\<lparr>users_effects := users_effects st @
                       [DbWrite ''user.create''
                          (JObj [(''id'', JStr (''u_'' @ user_nanoid env)), (''name'', or_null name),
                                 (''email'', or_null email)])] @
                       publish_block (users_amqp_ch st) ''[users]'' USER_CREATED (publish_user env) user\<rparr>))
         else (Replied (JNum 400) (JObj [(''error'', JStr ''name and email are required'')]), st))"

section \<open>Scenarios\<close>

text \<open>The service after start, with an empty cache and the channel open.\<close>

definition boot :: orders_service where
  "boot = \<lparr>userCache = Map.empty, next_ref = 0, amqp_ch = True, effects = []\<rparr>"

text \<open>A users service that cannot be reached: every attempt runs into the abort timer.\<close>

definition unreachable :: network where
  "unreachable n = TimesOut"

text \<open>A users service that answers every attempt with the given status and no JSON body.\<close>

definition answers :: "nat \<Rightarrow> network" where
  "answers code n = Responds \<lparr>status = code, body = None\<rparr>"

text \<open>A random source that always draws one half, for a jitter of 100 milliseconds.\<close>

definition steady :: random where
  "steady n = 1 / 2"

definition closed_breaker :: breaker where
  "closed_breaker = \<lparr>state = CLOSED, trial_taken = False, timer_first = False\<rparr>"

text \<open>A user event as the users service publishes it, and a well-formed order request.\<close>

definition user_event :: "string \<Rightarrow> json" where
  "user_event uid = JObj [(''id'', JStr uid), (''name'', JStr ''Ana''), (''email'', JStr ''ana@example.com'')]"

definition order_request :: "string \<Rightarrow> json" where
  "order_request uid = JObj [(''userId'', JStr uid), (''items'', JArr []), (''total'', JNum 10)]"

definition calm :: "network \<Rightarrow> post_env" where
  "calm net =
     \<lparr>breaker_now = closed_breaker, upstream = net, random_src = steady, nanoid = ''abc123'',
      prisma = DbReturns (JObj [(''id'', JStr ''o_abc123'')]), publish = PublishReturns\<rparr>"

text \<open>The payloads that the handler keys by value: those whose \<open>id\<close> is no object or array.\<close>

definition by_value_id :: "content \<Rightarrow> bool" where
  "by_value_id c =
     (case JSON_parse c of
        Inl e \<Rightarrow> True
      | Inr user \<Rightarrow> (case get_prop user ''id'' of Inl e \<Rightarrow> True | Inr i \<Rightarrow> primitive i))"

text \<open>A fault that the retrier retries: the \<open>try\<close> block throws.\<close>

definition retryable :: "attempt \<Rightarrow> bool" where
  "retryable a = isl (try_fetch a)"

text \<open>The failure paths of a call of \<open>breaker.fire\<close>.\<close>

definition failure_path :: "breaker \<Rightarrow> network \<Rightarrow> random \<Rightarrow> bool" where
  "failure_path b net rnd =
     (short_circuits b \<or> timer_first b \<or> isl (callUserService net rnd))"

text \<open>A users service whose first attempt times out and which then answers with a status.\<close>

definition late :: "nat \<Rightarrow> network" where
  "late code n = (if n = 0 then TimesOut else Responds \<lparr>status = code, body = None\<rparr>)"

text \<open>The requests that pass the test of line 169.\<close>

definition valid_order :: "json option \<Rightarrow> bool" where
  "valid_order req_body =
     (truthy (body_field req_body ''userId'') \<and> isArray (body_field req_body ''items'') \<and>
      isNumber (body_field req_body ''total''))"

text \<open>The sleep after the failed attempt with counter \<open>k\<close>, lines 108 to 112.\<close>

definition backoff :: "random \<Rightarrow> nat \<Rightarrow> nat" where
  "backoff rnd k = BASE_HTTP_RETRY_DELAY * 2 ^ k + jitter (rnd k)"

text \<open>A broker error, a delivery of the event of user \<open>u_1\<close>, and the service after it.\<close>

definition channel_closed :: js_error where
  "channel_closed = AmqpError ''Channel closed''"

definition delivery :: "nat \<Rightarrow> json \<Rightarrow> message" where
  "delivery tag v = \<lparr>delivery_tag = tag, content = JSON_text v\<rparr>"

definition warmed :: orders_service where
  "warmed = consume_handler (Some (delivery 1 (user_event ''u_1''))) boot"

text \<open>
  The broker is down when the service publishes: a request for an order, a cancellation
  and a sign-up whose writes succeed and whose publish throws.
\<close>

definition order_broker_down :: post_env where
  "order_broker_down = (calm unreachable)\<lparr>publish := PublishThrows channel_closed\<rparr>"

definition cancel_broker_down :: delete_env where
  "cancel_broker_down =
     \<lparr>prisma_update = DbReturns (JObj [(''id'', JStr ''o_abc123''), (''status'', JStr ''cancelled'')]),
      publish_cancel = PublishThrows channel_closed\<rparr>"

definition signup_broker_down :: user_env where
  "signup_broker_down =
     \<lparr>user_nanoid = ''xyz789'', prisma_create = DbReturns (user_event ''u_xyz789''),
      publish_user = PublishThrows channel_closed\<rparr>"

definition signup_request :: json where
  "signup_request = JObj [(''name'', JStr ''Ana''), (''email'', JStr ''ana@example.com'')]"

definition users_boot :: users_service where
  "users_boot = \<lparr>users_amqp_ch = True, users_effects = []\<rparr>"

section \<open>Timing\<close>

text \<open>
  The breaker's timer against the wrapped call, in milliseconds from the call of
  \<open>breaker.fire\<close>. A clock gives, for every attempt of the call, the time after which its
  \<open>fetch\<close> settles when nothing aborts it.
\<close>

type_synonym clock = "nat \<Rightarrow> nat"

text \<open>
  Lines 88 to 92: the attempt is aborted when its \<open>fetch\<close> has not settled after \<open>ms\<close>
  milliseconds.
\<close>

definition under_abort :: "nat \<Rightarrow> clock \<Rightarrow> network \<Rightarrow> network" where
  "under_abort ms lat net n = (if ms \<le> lat n then TimesOut else net n)"

definition attempt_time :: "nat \<Rightarrow> clock \<Rightarrow> network \<Rightarrow> nat \<Rightarrow> nat" where
  "attempt_time ms lat net n =
     (case under_abort ms lat net n of TimesOut \<Rightarrow> ms | Responds res \<Rightarrow> lat n | TransportFails \<Rightarrow> lat n)"

text \<open>
  The time after which \<open>callUserService\<close> settles: the attempts that the retrier makes,
  its sleeps, and for a response with \<open>resp.ok\<close> the time \<open>reading\<close> that \<open>resp.json()\<close>
  takes.
\<close>

definition call_time :: "nat \<Rightarrow> clock \<Rightarrow> nat \<Rightarrow> network \<Rightarrow> random \<Rightarrow> nat" where
  "call_time ms lat reading net rnd =
     (let run = fetchWithBackoff (under_abort ms lat net) rnd
      in sum_list (map (attempt_time ms lat net) [0..<attempts run]) + sum_list (sleeps run) +
         (case settled run of
            Inr (Some resp) \<Rightarrow> if ok resp then reading else 0
          | Inr None \<Rightarrow> 0
          | Inl e \<Rightarrow> 0))"

text \<open>Line 143: the breaker's timer for \<open>HTTP_TIMEOUT_MS = ms\<close>.\<close>

definition breaker_timeout :: "nat \<Rightarrow> nat" where
  "breaker_timeout ms = ms * (MAX_HTTP_RETRIES + 1)"

definition timer_runs_out :: "nat \<Rightarrow> clock \<Rightarrow> nat \<Rightarrow> network \<Rightarrow> random \<Rightarrow> bool" where
  "timer_runs_out ms lat reading net rnd = (breaker_timeout ms \<le> call_time ms lat reading net rnd)"

text \<open>
  A request that meets a closed breaker when \<open>HTTP_TIMEOUT_MS\<close> is \<open>ms\<close>: the network under
  the abort timer, and the breaker's timer as the clock decides it.
\<close>

definition with_timeout :: "nat \<Rightarrow> clock \<Rightarrow> network \<Rightarrow> post_env" where
  "with_timeout ms lat net =
     (calm (under_abort ms lat net))
       \<lparr>breaker_now := closed_breaker\<lparr>timer_first := timer_runs_out ms lat 0 net steady\<rparr>\<rparr>"

text \<open>
  A users service that refuses the first connection after 5 milliseconds and answers
  every later attempt with a status after 20 milliseconds, a request made with
  \<open>HTTP_TIMEOUT_MS = 100\<close> while it does so with status 404, and a users service whose
  first answer takes 2500 milliseconds and every later one 20.
\<close>

definition refused_then :: "nat \<Rightarrow> network" where
  "refused_then code n = (if n = 0 then TransportFails else Responds \<lparr>status = code, body = None\<rparr>)"

definition brisk :: clock where
  "brisk n = (if n = 0 then 5 else 20)"

definition slow_start :: clock where
  "slow_start n = (if n = 0 then 2500 else 20)"

definition impatient :: post_env where
  "impatient = with_timeout 100 brisk (refused_then 404)"

section \<open>Facts about the retrier loop\<close>

declare fetch_loop.simps [simp del]

lemmas scenario_defs =
  boot_def unreachable_def answers_def steady_def closed_breaker_def user_event_def
  order_request_def calm_def late_def delivery_def warmed_def channel_closed_def
  order_broker_down_def cancel_broker_down_def signup_broker_down_def signup_request_def
  users_boot_def with_timeout_def refused_then_def brisk_def impatient_def slow_start_def

lemmas retrier_defs =
  fetchWithBackoff_def fetch_loop.simps MAX_HTTP_RETRIES_def BASE_HTTP_RETRY_DELAY_def jitter_def

lemmas consumer_defs = consume_handler_def consume_try_def


lemma jitter_bound: "0 \<le> r \<Longrightarrow> r < 1 \<Longrightarrow> jitter r < 200"
proof -
  assume "0 \<le> r" and "r < 1"
  then have "r * 200 < 200" by simp
  then have "\<lfloor>r * 200\<rfloor> < 200" by (simp add: floor_less_iff)
  then show ?thesis unfolding jitter_def by linarith
qed

lemma retryable_throws:
  assumes "retryable a"
  obtains e where "try_fetch a = Inl e"
  using assms by (cases "try_fetch a") (simp_all add: retryable_def)

text \<open>The loop returns at the first attempt whose \<open>try\<close> block does not throw.\<close>

lemma fetch_loop_returns:
  assumes "try_fetch (net i) = Inr res" and "i < MAX_HTTP_RETRIES"
    and "r \<le> i" and "\<forall>j. r \<le> j \<and> j < i \<longrightarrow> retryable (net j)"
  shows "fetch_loop net rnd r sl =
           \<lparr>settled = Inr (Some res), attempts = Suc i, sleeps = sl @ map (backoff rnd) [r..<i]\<rparr>"
  using assms
proof (induction "i - r" arbitrary: r sl)
  case 0
  then have "r = i" by simp
  with 0 show ?case by (simp add: fetch_loop.simps)
next
  case (Suc d)
  then have lt: "r < i" by simp
  with Suc.prems have "retryable (net r)" by simp
  then obtain e where e: "try_fetch (net r) = Inl e"
    by (rule retryable_throws)
  from lt Suc.prems have ne: "r \<noteq> MAX_HTTP_RETRIES - 1" "r < MAX_HTTP_RETRIES" by simp_all
  have "fetch_loop net rnd (Suc r) (sl @ [backoff rnd r]) =
          \<lparr>settled = Inr (Some res), attempts = Suc i,
           sleeps = (sl @ [backoff rnd r]) @ map (backoff rnd) [Suc r..<i]\<rparr>"
    using Suc.hyps(2) Suc.prems lt by (intro Suc.hyps(1)) simp_all
  with e ne lt show ?case
    by (subst fetch_loop.simps) (simp add: backoff_def upt_conv_Cons)
qed

text \<open>When every attempt throws, the loop ends in the \<open>throw err\<close> of line 105.\<close>

lemma fetch_loop_exhausted:
  assumes "\<forall>j. r \<le> j \<and> j < MAX_HTTP_RETRIES \<longrightarrow> retryable (net j)" and "r < MAX_HTTP_RETRIES"
  shows "fetch_loop net rnd r sl =
           \<lparr>settled = Inl (ReferenceError ''err''), attempts = MAX_HTTP_RETRIES,
            sleeps = sl @ map (backoff rnd) [r..<MAX_HTTP_RETRIES - 1]\<rparr>"
  using assms
proof (induction "MAX_HTTP_RETRIES - r" arbitrary: r sl)
  case 0
  then show ?case by simp
next
  case (Suc d)
  then have "retryable (net r)" by simp
  then obtain e where e: "try_fetch (net r) = Inl e"
    by (rule retryable_throws)
  show ?case
  proof (cases "r = MAX_HTTP_RETRIES - 1")
    case True
    with e Suc.prems show ?thesis
      by (subst fetch_loop.simps) simp
  next
    case False
    with Suc.prems have lt: "Suc r < MAX_HTTP_RETRIES" by simp
    have "fetch_loop net rnd (Suc r) (sl @ [backoff rnd r]) =
            \<lparr>settled = Inl (ReferenceError ''err''), attempts = MAX_HTTP_RETRIES,
             sleeps = (sl @ [backoff rnd r]) @ map (backoff rnd) [Suc r..<MAX_HTTP_RETRIES - 1]\<rparr>"
      using Suc.hyps(2) Suc.prems lt by (intro Suc.hyps(1)) simp_all
    with e False Suc.prems lt show ?thesis
      by (subst fetch_loop.simps) (simp add: backoff_def upt_conv_Cons)
  qed
qed

text \<open>Every run sleeps once after each attempt but the last, by the schedule \<open>backoff\<close>.\<close>

lemma fetch_loop_sleeps:
  "r < MAX_HTTP_RETRIES \<Longrightarrow>
     r < attempts (fetch_loop net rnd r sl) \<and>
     sleeps (fetch_loop net rnd r sl) =
       sl @ map (backoff rnd) [r..<attempts (fetch_loop net rnd r sl) - 1]"
proof (induction net rnd r sl rule: fetch_loop.induct)
  case (1 net rnd retries slept)
  show ?case
  proof (cases "try_fetch (net retries)")
    case (Inr res)
    with 1 show ?thesis by (subst (1 2 3) fetch_loop.simps) simp
  next
    case (Inl e)
    show ?thesis
    proof (cases "retries = MAX_HTTP_RETRIES - 1")
      case True
      with Inl 1 show ?thesis by (subst (1 2 3) fetch_loop.simps) simp
    next
      case False
      let ?next = "fetch_loop net rnd (Suc retries) (slept @ [backoff rnd retries])"
      from False "1.prems" have lt: "Suc retries < MAX_HTTP_RETRIES" by simp
      have ih: "Suc retries < attempts ?next \<and>
         sleeps ?next =
           (slept @ [backoff rnd retries]) @ map (backoff rnd) [Suc retries..<attempts ?next - 1]"
        using "1.IH"[OF "1.prems" Inl False] lt by (simp add: backoff_def)
      have unf: "fetch_loop net rnd retries slept = ?next"
        using Inl False "1.prems" by (subst fetch_loop.simps) (simp add: backoff_def)
      from ih have "retries < attempts ?next - 1"
        by linarith
      with ih show ?thesis
        unfolding unf by (simp add: upt_conv_Cons)
    qed
  qed
qed

text \<open>Exhausted retries are a failure path of the breaker.\<close>

lemma exhausted_call_fails:
  assumes "\<forall>j<MAX_HTTP_RETRIES. retryable (net j)"
  shows "callUserService net rnd = Inl (ReferenceError ''err'')"
proof -
  have "fetch_loop net rnd 0 [] =
          \<lparr>settled = Inl (ReferenceError ''err''), attempts = MAX_HTTP_RETRIES,
           sleeps = [] @ map (backoff rnd) [0..<MAX_HTTP_RETRIES - 1]\<rparr>"
    using assms by (intro fetch_loop_exhausted) (simp_all add: MAX_HTTP_RETRIES_def)
  then show ?thesis
    by (simp add: callUserService_def fetchWithBackoff_def)
qed

lemma exhausted_is_failure_path:
  "\<forall>j<MAX_HTTP_RETRIES. retryable (net j) \<Longrightarrow> failure_path b net rnd"
  by (simp add: failure_path_def exhausted_call_fails)

lemma key_of_primitive: "primitive i \<Longrightarrow> key_of r i = key_of r' i"
  by (cases "(r, i)" rule: key_of.cases) simp_all

lemma get_prop_throws: "get_prop v p = Inl e \<Longrightarrow> v = JNull \<and> e = TypeError"
  by (cases "(v, p)" rule: get_prop.cases) simp_all

section \<open>Facts about the timing\<close>

lemma backoff_bound: "0 \<le> rnd k \<Longrightarrow> rnd k < 1 \<Longrightarrow> backoff rnd k < 500 * 2 ^ k + 200"
  using jitter_bound [of "rnd k"] by (simp add: backoff_def BASE_HTTP_RETRY_DELAY_def)

lemma attempt_time_le: "attempt_time ms lat net n \<le> ms"
  by (simp add: attempt_time_def under_abort_def split: attempt.splits)

lemma attempt_time_answer:
  "under_abort ms lat net n = Responds resp \<Longrightarrow> attempt_time ms lat net n < ms"
  by (simp add: attempt_time_def under_abort_def split: if_splits)

text \<open>
  With \<open>HTTP_TIMEOUT_MS\<close> of 1898 or more, as with the default 2000, a response with a
  status from 400 to 499 always comes before the breaker's timer runs out: three
  attempts and two sleeps take less than \<open>3 * ms + 1898\<close> milliseconds.
\<close>

lemma timer_outlasts_client_status:
  assumes big: "1898 \<le> ms"
    and resp: "under_abort ms lat net i = Responds resp"
    and client: "400 \<le> status resp" "status resp \<le> 499"
    and i: "i < MAX_HTTP_RETRIES"
    and faults: "\<forall>j<i. retryable (under_abort ms lat net j)"
    and draws: "\<forall>j<i. 0 \<le> rnd j \<and> rnd j < 1"
  shows "\<not> timer_runs_out ms lat reading net rnd"
proof -
  let ?net = "under_abort ms lat net"
  have t: "try_fetch (?net i) = Inr resp"
    using resp client by simp
  have run: "fetchWithBackoff ?net rnd =
           \<lparr>settled = Inr (Some resp), attempts = Suc i, sleeps = map (backoff rnd) [0..<i]\<rparr>"
    unfolding fetchWithBackoff_def
    using fetch_loop_returns [where net = ?net and i = i and res = resp and r = 0
        and rnd = rnd and sl = "[]"] t i faults
    by simp
  have nok: "\<not> ok resp"
    using client by (simp add: ok_def)
  have time: "call_time ms lat reading net rnd =
      sum_list (map (attempt_time ms lat net) [0..<Suc i]) + sum_list (map (backoff rnd) [0..<i])"
    by (simp add: call_time_def run nok)
  have last: "attempt_time ms lat net i < ms"
    using resp by (rule attempt_time_answer)
  from i have "i = 0 \<or> i = 1 \<or> i = 2"
    by (auto simp: MAX_HTTP_RETRIES_def)
  then have "call_time ms lat reading net rnd < ms * 4"
  proof (elim disjE)
    assume "i = 0"
    with last show ?thesis by (simp add: time)
  next
    assume i1: "i = 1"
    have "backoff rnd 0 < 700"
      using draws i1 backoff_bound [of rnd 0] by simp
    moreover have "attempt_time ms lat net 0 \<le> ms"
      by (rule attempt_time_le)
    ultimately show ?thesis
      using last big i1 by (simp add: time)
  next
    assume i2: "i = 2"
    have "backoff rnd 0 < 700" "backoff rnd 1 < 1200"
      using draws i2 backoff_bound [of rnd 0] backoff_bound [of rnd 1] by simp_all
    moreover have "attempt_time ms lat net 0 \<le> ms" "attempt_time ms lat net 1 \<le> ms"
      by (rule attempt_time_le)+
    ultimately show ?thesis
      using last big i2 by (simp add: time eval_nat_numeral)
  qed
  then show ?thesis
    by (simp add: timer_runs_out_def breaker_timeout_def MAX_HTTP_RETRIES_def)
qed

section \<open>The breaker's fallback\<close>

text \<open>
  Claim C1. A call of \<open>breaker.fire\<close> that ends on a failure path (the breaker is open
  or has its trial call under way, the wrapped call fails, as it does when the retries
  are exhausted, or the breaker's timer runs out) while the cache holds an entry for the
  id invokes the fallback and returns that entry: the call resolves, and the underlying
  error does not reach the caller.
\<close>

theorem fire_returns_cached_entry:
  assumes "failure_path b net rnd" and "userCache st userId = Some user"
  shows "fire b net rnd st userId = \<lparr>result = Inr user, fallback_invoked = True\<rparr>"
  using assms
  by (auto simp: fire_def failure_path_def fallback_def split: sum.splits)

text \<open>
  Scenario A: the users service is unreachable and the event of user \<open>u_1\<close> was consumed
  before.
\<close>

theorem fire_returns_cached_entry_witness:
  "failure_path closed_breaker unreachable steady \<and>
   userCache warmed (KStr ''u_1'') = Some (user_event ''u_1'') \<and>
   fire closed_breaker unreachable steady warmed (KStr ''u_1'') =
     \<lparr>result = Inr (user_event ''u_1''), fallback_invoked = True\<rparr>"
proof -
  have p: "failure_path closed_breaker unreachable steady"
    by (simp add: failure_path_def callUserService_def retrier_defs scenario_defs)
  have c: "userCache warmed (KStr ''u_1'') = Some (user_event ''u_1'')"
    by (simp add: consumer_defs scenario_defs)
  show ?thesis
    using p c fire_returns_cached_entry [OF p c] by simp
qed

text \<open>
  Claim C2. When a call of \<open>breaker.fire\<close> ends on a failure path and the cache has no
  entry for the id, the call fails with the error of code \<open>SERVICE_UNAVAILABLE\<close>, and the
  caller of \<open>POST /\<close> should receive a response of status 503 with that error. In
  scenario B (the users service is unreachable, \<open>u_9\<close> is not cached) the call does fail
  with that error, but line 173 awaits it outside the \<open>try\<close> block whose \<open>catch\<close> clause
  holds the 503 response: the handler's promise is rejected and no response is written.
\<close>

theorem post_order_unavailable_sends_nothing:
  "result (fire closed_breaker unreachable steady boot (KStr ''u_9'')) = Inl SERVICE_UNAVAILABLE \<and>
   post_order (calm unreachable) (Some (order_request ''u_9'')) boot =
     (Rejected SERVICE_UNAVAILABLE, boot)"
  by (simp add: post_order_def fire_def fallback_def callUserService_def retrier_defs scenario_defs)

section \<open>The retrier\<close>

text \<open>
  Claim C3. After \<open>MAX_HTTP_RETRIES\<close> consecutive retryable faults the retrier has made
  exactly that many attempts and should fail with the last underlying error. For three
  responses of status 503 it makes three attempts, and then line 105 throws the
  undeclared \<open>err\<close>: the call fails with a reference error, not with the error of the
  last attempt.
\<close>

theorem fetchWithBackoff_exhausted_throws_err:
  "fetchWithBackoff (answers 503) steady =
     \<lparr>settled = Inl (ReferenceError ''err''), attempts = 3, sleeps = [600, 1100]\<rparr>"
  by (simp add: retrier_defs scenario_defs)

text \<open>
  Claim C8. With attempts counted from 0, as the counter \<open>retries\<close> counts them, the sleep
  before attempt \<open>k\<close> of a call is at least \<open>500 * 2 ^ (k - 1)\<close> and less than
  \<open>500 * 2 ^ (k - 1) + 200\<close> milliseconds, for a random draw in the unit interval. The
  retrier sleeps once before every attempt but the first, and the schedule depends on
  the call's own counter only, so it starts afresh with every call.
\<close>

theorem sleep_before_attempt:
  assumes "0 \<le> rnd (k - 1)" and "rnd (k - 1) < 1"
    and "1 \<le> k" and "k < attempts (fetchWithBackoff net rnd)"
  shows "length (sleeps (fetchWithBackoff net rnd)) = attempts (fetchWithBackoff net rnd) - 1 \<and>
         500 * 2 ^ (k - 1) \<le> sleeps (fetchWithBackoff net rnd) ! (k - 1) \<and>
         sleeps (fetchWithBackoff net rnd) ! (k - 1) < 500 * 2 ^ (k - 1) + 200"
proof -
  let ?run = "fetchWithBackoff net rnd"
  have s: "sleeps ?run = map (backoff rnd) [0..<attempts ?run - 1]"
    using fetch_loop_sleeps [of 0 net rnd "[]"]
    by (simp add: fetchWithBackoff_def MAX_HTTP_RETRIES_def)
  from assms have "k - 1 < attempts ?run - 1" by linarith
  then have "sleeps ?run ! (k - 1) = backoff rnd (k - 1)"
    by (simp add: s)
  moreover have "jitter (rnd (k - 1)) < 200"
    using assms by (intro jitter_bound)
  ultimately show ?thesis
    by (simp add: s backoff_def BASE_HTTP_RETRY_DELAY_def)
qed

theorem sleep_before_attempt_witness:
  "0 \<le> steady (2 - 1) \<and> steady (2 - 1) < 1 \<and> (1::nat) \<le> 2 \<and>
   2 < attempts (fetchWithBackoff unreachable steady) \<and>
   sleeps (fetchWithBackoff unreachable steady) = [600, 1100] \<and>
   500 * 2 ^ (2 - 1) \<le> sleeps (fetchWithBackoff unreachable steady) ! (2 - 1) \<and>
   sleeps (fetchWithBackoff unreachable steady) ! (2 - 1) < 500 * 2 ^ (2 - 1) + 200"
proof -
  have r: "0 \<le> steady (2 - 1)" "steady (2 - 1) < 1"
    by (simp_all add: steady_def)
  have k: "(1::nat) \<le> 2" by simp
  have a: "2 < attempts (fetchWithBackoff unreachable steady)"
    by (simp add: retrier_defs scenario_defs)
  have s: "sleeps (fetchWithBackoff unreachable steady) = [600, 1100]"
    by (simp add: retrier_defs scenario_defs)
  show ?thesis
    using r k a s sleep_before_attempt [OF r k a] by simp
qed




section \<open>The cache\<close>

text \<open>
  Claim C4. No route handler writes the cache: whatever the request, the network, the
  breaker and the database do, the cache after the request is the cache before it, in
  every state. The retrier and \<open>callUserService\<close> do not see the service's state, and the
  breaker and its fallback only read it; a delivery to the consumer is the one event
  left that can change the cache.
\<close>

theorem routes_never_write_cache:
  "userCache (react (Http rq) st) = userCache st"
proof (cases rq)
  case (PostOrder env req_body)
  then show ?thesis
    by (simp add: post_order_def create_order_def Let_def split: sum.splits db_outcome.splits)
next
  case (DeleteOrder env order_id)
  then show ?thesis
    by (simp add: cancel_order_def split: db_outcome.splits)
qed simp_all

text \<open>
  Claim C5, amended. For a message whose content parses to a value other than \<open>null\<close>, the
  handler stores the value under the key of its \<open>id\<close> and then acknowledges the message.
  For a content that does not parse, and for the content \<open>null\<close>, whose \<open>id\<close> cannot be
  read, it logs the error, rejects the message without requeue and leaves the cache as
  it was. The handler returns in every case.
\<close>

theorem consume_outcome:
  "(JSON_parse (content msg) = Inr user \<and> user \<noteq> JNull \<longrightarrow>
      (\<exists>i. get_prop user ''id'' = Inr i \<and>
           userCache (consume_handler (Some msg) st) =
             (userCache st)(key_of (next_ref st) i \<mapsto> user)) \<and>
      effects (consume_handler (Some msg) st) = effects st @ [Ack (delivery_tag msg)]) \<and>
   (JSON_parse (content msg) = Inl e \<longrightarrow>
      userCache (consume_handler (Some msg) st) = userCache st \<and>
      effects (consume_handler (Some msg) st) =
        effects st @ [ConsoleError ''[orders] consume error:'' e,
                      Nack (delivery_tag msg) False False]) \<and>
   (JSON_parse (content msg) = Inr JNull \<longrightarrow>
      userCache (consume_handler (Some msg) st) = userCache st \<and>
      effects (consume_handler (Some msg) st) =
        effects st @ [ConsoleError ''[orders] consume error:'' TypeError,
                      Nack (delivery_tag msg) False False])"
proof (intro conjI impI)
  assume a: "JSON_parse (content msg) = Inr user \<and> user \<noteq> JNull"
  then obtain i where i: "get_prop user ''id'' = Inr i"
    by (cases "get_prop user ''id''") (auto dest: get_prop_throws)
  with a show "\<exists>i. get_prop user ''id'' = Inr i \<and>
       userCache (consume_handler (Some msg) st) = (userCache st)(key_of (next_ref st) i \<mapsto> user)"
    by (simp add: consumer_defs)
  from a i show "effects (consume_handler (Some msg) st) = effects st @ [Ack (delivery_tag msg)]"
    by (simp add: consumer_defs)
next
  assume "JSON_parse (content msg) = Inl e"
  then show "userCache (consume_handler (Some msg) st) = userCache st"
    and "effects (consume_handler (Some msg) st) =
        effects st @ [ConsoleError ''[orders] consume error:'' e, Nack (delivery_tag msg) False False]"
    by (simp_all add: consumer_defs)
next
  assume "JSON_parse (content msg) = Inr JNull"
  then show "userCache (consume_handler (Some msg) st) = userCache st"
    and "effects (consume_handler (Some msg) st) =
        effects st @ [ConsoleError ''[orders] consume error:'' TypeError,
                      Nack (delivery_tag msg) False False]"
    by (simp_all add: consumer_defs)
qed

text \<open>The event of user \<open>u_1\<close>, a text that is not JSON, and the text \<open>null\<close>.\<close>

theorem consume_outcome_witness:
  "JSON_parse (content (delivery 1 (user_event ''u_1''))) = Inr (user_event ''u_1'') \<and>
   user_event ''u_1'' \<noteq> JNull \<and>
   userCache (consume_handler (Some (delivery 1 (user_event ''u_1''))) boot) (KStr ''u_1'') =
     Some (user_event ''u_1'') \<and>
   effects (consume_handler (Some (delivery 1 (user_event ''u_1''))) boot) = [Ack 1] \<and>
   JSON_parse (content \<lparr>delivery_tag = 2, content = Malformed ''{oops''\<rparr>) = Inl SyntaxError \<and>
   userCache (consume_handler (Some \<lparr>delivery_tag = 2, content = Malformed ''{oops''\<rparr>) warmed) =
     userCache warmed \<and>
   effects (consume_handler (Some \<lparr>delivery_tag = 2, content = Malformed ''{oops''\<rparr>) warmed) =
     [Ack 1, ConsoleError ''[orders] consume error:'' SyntaxError, Nack 2 False False] \<and>
   JSON_parse (content (delivery 3 JNull)) = Inr JNull \<and>
   userCache (consume_handler (Some (delivery 3 JNull)) warmed) = userCache warmed"
proof -
  have h1: "JSON_parse (content (delivery 1 (user_event ''u_1''))) = Inr (user_event ''u_1'') \<and>
      user_event ''u_1'' \<noteq> JNull"
    by (simp add: scenario_defs)
  have h2: "JSON_parse (content \<lparr>delivery_tag = 2, content = Malformed ''{oops''\<rparr>) = Inl SyntaxError"
    by simp
  have h3: "JSON_parse (content (delivery 3 JNull)) = Inr JNull"
    by (simp add: scenario_defs)
  have i: "get_prop (user_event ''u_1'') ''id'' = Inr (Some (JStr ''u_1''))"
    by (simp add: scenario_defs)
  have e: "effects warmed = [Ack 1]" "effects boot = []" "next_ref boot = 0" "userCache boot = Map.empty"
    by (simp_all add: consumer_defs scenario_defs)
  from consume_outcome [of "delivery 1 (user_event ''u_1'')" "user_event ''u_1''" boot] h1 i
  have c1: "userCache (consume_handler (Some (delivery 1 (user_event ''u_1''))) boot) (KStr ''u_1'') =
     Some (user_event ''u_1'') \<and>
     effects (consume_handler (Some (delivery 1 (user_event ''u_1''))) boot) = [Ack 1]"
    by (auto simp: e delivery_def)
  from consume_outcome [of "\<lparr>delivery_tag = 2, content = Malformed ''{oops''\<rparr>" _ warmed SyntaxError] h2
  have c2: "userCache (consume_handler (Some \<lparr>delivery_tag = 2, content = Malformed ''{oops''\<rparr>) warmed) =
     userCache warmed \<and>
     effects (consume_handler (Some \<lparr>delivery_tag = 2, content = Malformed ''{oops''\<rparr>) warmed) =
     [Ack 1, ConsoleError ''[orders] consume error:'' SyntaxError, Nack 2 False False]"
    by (simp add: e)
  from consume_outcome [of "delivery 3 JNull" _ warmed] h3
  have c3: "userCache (consume_handler (Some (delivery 3 JNull)) warmed) = userCache warmed"
    by simp
  from h1 h2 h3 c1 c2 c3 show ?thesis by simp
qed

text \<open>
  The claim as first stated fails for the content \<open>null\<close>: it parses as JSON, yet the
  message is rejected without requeue and not acknowledged.
\<close>

theorem consume_null_counterexample:
  "JSON_parse (content (delivery 1 JNull)) = Inr JNull \<and>
   effects (consume_handler (Some (delivery 1 JNull)) boot) =
     [ConsoleError ''[orders] consume error:'' TypeError, Nack 1 False False]"
  by (simp add: consumer_defs scenario_defs)

text \<open>
  Claim C6. Consuming the same event payload for the same id twice leaves the cache as
  consuming it once leaves it. The id of an event is one that the map compares by
  value: a string, as the users service makes them, and likewise a number, a boolean,
  \<open>null\<close> or no id at all.
\<close>

theorem consume_twice:
  assumes same: "content m2 = content m1" and prim: "by_value_id (content m1)"
  shows "userCache (consume_handler (Some m2) (consume_handler (Some m1) st)) =
         userCache (consume_handler (Some m1) st)"
proof (cases "JSON_parse (content m1)")
  case (Inl e)
  with same show ?thesis
    by (simp add: consumer_defs)
next
  case (Inr user)
  show ?thesis
  proof (cases "get_prop user ''id''")
    case (Inl e)
    with Inr same show ?thesis
      by (simp add: consumer_defs)
  next
    case i: (Inr i)
    with Inr prim have "primitive i"
      by (simp add: by_value_id_def)
    then have "key_of (Suc (next_ref st)) i = key_of (next_ref st) i"
      by (rule key_of_primitive)
    with Inr i same show ?thesis
      by (simp add: consumer_defs)
  qed
qed

theorem consume_twice_witness:
  "content (delivery 2 (user_event ''u_1'')) = content (delivery 1 (user_event ''u_1'')) \<and>
   by_value_id (content (delivery 1 (user_event ''u_1''))) \<and>
   userCache (consume_handler (Some (delivery 2 (user_event ''u_1''))) warmed) = userCache warmed"
proof -
  have s: "content (delivery 2 (user_event ''u_1'')) = content (delivery 1 (user_event ''u_1''))"
    by (simp add: delivery_def)
  have p: "by_value_id (content (delivery 1 (user_event ''u_1'')))"
    by (simp add: by_value_id_def scenario_defs)
  show ?thesis
    using s p consume_twice [OF s p, of boot] by (simp add: warmed_def)
qed

text \<open>
  Why the id has to be one compared by value: a payload whose \<open>id\<close> is an object is no
  event of a user. Each parse makes a new object, the map compares such keys by
  identity, and a second delivery adds a second entry.
\<close>

lemma consume_object_id_twice:
  "userCache (consume_handler (Some (delivery 2 (JObj [(''id'', JObj [])])))
      (consume_handler (Some (delivery 1 (JObj [(''id'', JObj [])]))) boot)) \<noteq>
   userCache (consume_handler (Some (delivery 1 (JObj [(''id'', JObj [])]))) boot)"
  by (simp add: consumer_defs scenario_defs fun_eq_iff exI[of _ "KRef 1"])

text \<open>
  Claim C10. A message whose content parses to a value other than \<open>null\<close> that has no
  property \<open>id\<close> is stored under the key \<open>undefined\<close> and acknowledged; nothing checks the
  shape of the payload.
\<close>

theorem consume_without_id:
  assumes "JSON_parse (content msg) = Inr v" and "v \<noteq> JNull" and "get_prop v ''id'' = Inr None"
  shows "userCache (consume_handler (Some msg) st) = (userCache st)(KUndefined \<mapsto> v) \<and>
         effects (consume_handler (Some msg) st) = effects st @ [Ack (delivery_tag msg)]"
  using assms by (simp add: consumer_defs)

text \<open>A number, and an object without \<open>id\<close>.\<close>

theorem consume_without_id_witness:
  "JSON_parse (content (delivery 4 (JNum 42))) = Inr (JNum 42) \<and> JNum 42 \<noteq> JNull \<and>
   get_prop (JNum 42) ''id'' = Inr None \<and>
   userCache (consume_handler (Some (delivery 4 (JNum 42))) boot) KUndefined = Some (JNum 42) \<and>
   effects (consume_handler (Some (delivery 4 (JNum 42))) boot) = [Ack 4] \<and>
   get_prop (JObj [(''name'', JStr ''Ana'')]) ''id'' = Inr None \<and>
   userCache (consume_handler (Some (delivery 5 (JObj [(''name'', JStr ''Ana'')]))) boot) KUndefined =
     Some (JObj [(''name'', JStr ''Ana'')])"
proof -
  have p: "JSON_parse (content (delivery 4 (JNum 42))) = Inr (JNum 42)"
    "JSON_parse (content (delivery 5 (JObj [(''name'', JStr ''Ana'')]))) = Inr (JObj [(''name'', JStr ''Ana'')])"
    by (simp_all add: delivery_def)
  have n: "JNum 42 \<noteq> JNull" "JObj [(''name'', JStr ''Ana'')] \<noteq> JNull"
    by simp_all
  have g: "get_prop (JNum 42) ''id'' = Inr None" "get_prop (JObj [(''name'', JStr ''Ana'')]) ''id'' = Inr None"
    by simp_all
  show ?thesis
    using p n g consume_without_id [OF p(1) n(1) g(1), of boot]
      consume_without_id [OF p(2) n(2) g(2), of boot]
    by (simp add: boot_def delivery_def)
qed

section \<open>Publishing after a committed write\<close>

text \<open>
  Claim C9. When the write of a new order, of a cancelled order or of a new user has
  succeeded and the publish that follows throws, the handler logs the error and sends
  the success response: the one write stays as the only write, nothing is written
  again, and the response is the one that the caller receives when the publish
  succeeds.
\<close>

theorem publish_failure_stays_local:
  "(valid_order req_body \<and>
    result (fire (breaker_now env) (upstream env) (random_src env) st
              (key_of (next_ref st) (body_field req_body ''userId''))) = Inr user \<and>
    get_prop user ''error'' = Inr user_error \<and> \<not> truthy user_error \<and>
    prisma env = DbReturns order \<and> publish env = PublishThrows e \<and> amqp_ch st \<longrightarrow>
      post_order env req_body st =
        (Replied (JNum 201) order,
         st\<lparr>effects := effects st @
               [DbWrite ''order.create''
                  (JObj [(''id'', JStr (''o_'' @ nanoid env)),
                         (''userId'', or_null (body_field req_body ''userId'')),
                         (''items'', or_null (body_field req_body ''items'')),
                         (''total'', or_null (body_field req_body ''total''))]),
                ConsoleError ''[orders] publish error:'' e]\<rparr>) \<and>
      fst (post_order env req_body st) =
        fst (post_order (env\<lparr>publish := PublishReturns\<rparr>) req_body st)) \<and>
   (prisma_update denv = DbReturns row \<and> publish_cancel denv = PublishThrows e \<and> amqp_ch st \<longrightarrow>
      cancel_order denv order_id st =
        (Replied (JNum 200) (JObj [(''message'', JStr ''order cancelled''), (''id'', JStr order_id)]),
         st\<lparr>effects := effects st @
               [DbWrite ''order.update''
                  (JObj [(''id'', JStr order_id), (''status'', JStr ''cancelled'')]),
                ConsoleError ''[orders] publish error:'' e]\<rparr>) \<and>
      fst (cancel_order denv order_id st) =
        fst (cancel_order (denv\<lparr>publish_cancel := PublishReturns\<rparr>) order_id st)) \<and>
   (truthy (body_field user_body ''name'') \<and> truthy (body_field user_body ''email'') \<and>
    prisma_create uenv = DbReturns new_user \<and> publish_user uenv = PublishThrows e \<and>
    users_amqp_ch ust \<longrightarrow>
      post_user uenv user_body ust =
        (Replied (JNum 201) new_user,
         ust\<lparr>users_effects := users_effects ust @
               [DbWrite ''user.create''
                  (JObj [(''id'', JStr (''u_'' @ user_nanoid uenv)),
                         (''name'', or_null (body_field user_body ''name'')),
                         (''email'', or_null (body_field user_body ''email''))]),
                ConsoleError ''[users] publish error:'' e]\<rparr>) \<and>
      fst (post_user uenv user_body ust) =
        fst (post_user (uenv\<lparr>publish_user := PublishReturns\<rparr>) user_body ust))"
proof (intro conjI impI)
  assume a: "valid_order req_body \<and>
    result (fire (breaker_now env) (upstream env) (random_src env) st
              (key_of (next_ref st) (body_field req_body ''userId''))) = Inr user \<and>
    get_prop user ''error'' = Inr user_error \<and> \<not> truthy user_error \<and>
    prisma env = DbReturns order \<and> publish env = PublishThrows e \<and> amqp_ch st"
  then show "post_order env req_body st =
        (Replied (JNum 201) order,
         st\<lparr>effects := effects st @
               [DbWrite ''order.create''
                  (JObj [(''id'', JStr (''o_'' @ nanoid env)),
                         (''userId'', or_null (body_field req_body ''userId'')),
                         (''items'', or_null (body_field req_body ''items'')),
                         (''total'', or_null (body_field req_body ''total''))]),
                ConsoleError ''[orders] publish error:'' e]\<rparr>)"
    by (simp add: post_order_def create_order_def publish_block_def valid_order_def)
  from a show "fst (post_order env req_body st) =
      fst (post_order (env\<lparr>publish := PublishReturns\<rparr>) req_body st)"
    by (simp add: post_order_def create_order_def valid_order_def)
next
  assume a: "prisma_update denv = DbReturns row \<and> publish_cancel denv = PublishThrows e \<and> amqp_ch st"
  then show "cancel_order denv order_id st =
        (Replied (JNum 200) (JObj [(''message'', JStr ''order cancelled''), (''id'', JStr order_id)]),
         st\<lparr>effects := effects st @
               [DbWrite ''order.update''
                  (JObj [(''id'', JStr order_id), (''status'', JStr ''cancelled'')]),
                ConsoleError ''[orders] publish error:'' e]\<rparr>)"
    by (simp add: cancel_order_def publish_block_def)
  from a show "fst (cancel_order denv order_id st) =
        fst (cancel_order (denv\<lparr>publish_cancel := PublishReturns\<rparr>) order_id st)"
    by (simp add: cancel_order_def)
next
  assume a: "truthy (body_field user_body ''name'') \<and> truthy (body_field user_body ''email'') \<and>
    prisma_create uenv = DbReturns new_user \<and> publish_user uenv = PublishThrows e \<and>
    users_amqp_ch ust"
  then show "post_user uenv user_body ust =
        (Replied (JNum 201) new_user,
         ust\<lparr>users_effects := users_effects ust @
               [DbWrite ''user.create''
                  (JObj [(''id'', JStr (''u_'' @ user_nanoid uenv)),
                         (''name'', or_null (body_field user_body ''name'')),
                         (''email'', or_null (body_field user_body ''email''))]),
                ConsoleError ''[users] publish error:'' e]\<rparr>)"
    by (simp add: post_user_def publish_block_def)
  from a show "fst (post_user uenv user_body ust) =
        fst (post_user (uenv\<lparr>publish_user := PublishReturns\<rparr>) user_body ust)"
    by (simp add: post_user_def)
qed

text \<open>
  The users service is unreachable, user \<open>u_1\<close> is cached, and the channel throws on every
  publish.
\<close>

theorem publish_failure_stays_local_witness:
  "valid_order (Some (order_request ''u_1'')) \<and>
   result (fire (breaker_now order_broker_down) (upstream order_broker_down)
             (random_src order_broker_down) warmed
             (key_of (next_ref warmed) (body_field (Some (order_request ''u_1'')) ''userId''))) =
     Inr (user_event ''u_1'') \<and>
   get_prop (user_event ''u_1'') ''error'' = Inr None \<and> \<not> truthy None \<and>
   prisma order_broker_down = DbReturns (JObj [(''id'', JStr ''o_abc123'')]) \<and>
   publish order_broker_down = PublishThrows channel_closed \<and> amqp_ch warmed \<and>
   fst (post_order order_broker_down (Some (order_request ''u_1'')) warmed) =
     Replied (JNum 201) (JObj [(''id'', JStr ''o_abc123'')]) \<and>
   effects (snd (post_order order_broker_down (Some (order_request ''u_1'')) warmed)) =
     [Ack 1,
      DbWrite ''order.create''
        (JObj [(''id'', JStr ''o_abc123''), (''userId'', JStr ''u_1''), (''items'', JArr []),
               (''total'', JNum 10)]),
      ConsoleError ''[orders] publish error:'' channel_closed] \<and>
   prisma_update cancel_broker_down =
     DbReturns (JObj [(''id'', JStr ''o_abc123''), (''status'', JStr ''cancelled'')]) \<and>
   publish_cancel cancel_broker_down = PublishThrows channel_closed \<and>
   fst (cancel_order cancel_broker_down ''o_abc123'' warmed) =
     Replied (JNum 200) (JObj [(''message'', JStr ''order cancelled''), (''id'', JStr ''o_abc123'')]) \<and>
   effects (snd (cancel_order cancel_broker_down ''o_abc123'' warmed)) =
     [Ack 1,
      DbWrite ''order.update'' (JObj [(''id'', JStr ''o_abc123''), (''status'', JStr ''cancelled'')]),
      ConsoleError ''[orders] publish error:'' channel_closed] \<and>
   truthy (body_field (Some signup_request) ''name'') \<and>
   truthy (body_field (Some signup_request) ''email'') \<and>
   prisma_create signup_broker_down = DbReturns (user_event ''u_xyz789'') \<and>
   publish_user signup_broker_down = PublishThrows channel_closed \<and> users_amqp_ch users_boot \<and>
   fst (post_user signup_broker_down (Some signup_request) users_boot) =
     Replied (JNum 201) (user_event ''u_xyz789'') \<and>
   users_effects (snd (post_user signup_broker_down (Some signup_request) users_boot)) =
     [DbWrite ''user.create''
        (JObj [(''id'', JStr ''u_xyz789''), (''name'', JStr ''Ana''),
               (''email'', JStr ''ana@example.com'')]),
      ConsoleError ''[users] publish error:'' channel_closed]"
proof -
  have o: "valid_order (Some (order_request ''u_1''))"
    "result (fire (breaker_now order_broker_down) (upstream order_broker_down)
             (random_src order_broker_down) warmed
             (key_of (next_ref warmed) (body_field (Some (order_request ''u_1'')) ''userId''))) =
     Inr (user_event ''u_1'')"
    "get_prop (user_event ''u_1'') ''error'' = Inr None" "\<not> truthy None"
    "prisma order_broker_down = DbReturns (JObj [(''id'', JStr ''o_abc123'')])"
    "publish order_broker_down = PublishThrows channel_closed" "amqp_ch warmed"
    by (simp_all add: valid_order_def fire_def fallback_def callUserService_def consumer_defs
          retrier_defs scenario_defs)
  have c: "prisma_update cancel_broker_down =
     DbReturns (JObj [(''id'', JStr ''o_abc123''), (''status'', JStr ''cancelled'')])"
    "publish_cancel cancel_broker_down = PublishThrows channel_closed"
    by (simp_all add: cancel_broker_down_def)
  have u: "truthy (body_field (Some signup_request) ''name'')"
    "truthy (body_field (Some signup_request) ''email'')"
    "prisma_create signup_broker_down = DbReturns (user_event ''u_xyz789'')"
    "publish_user signup_broker_down = PublishThrows channel_closed" "users_amqp_ch users_boot"
    by (simp_all add: signup_request_def signup_broker_down_def users_boot_def)
  have v: "effects warmed = [Ack 1]" "users_effects users_boot = []"
    "nanoid order_broker_down = ''abc123''" "user_nanoid signup_broker_down = ''xyz789''"
    "body_field (Some (order_request ''u_1'')) ''userId'' = Some (JStr ''u_1'')"
    "body_field (Some (order_request ''u_1'')) ''items'' = Some (JArr [])"
    "body_field (Some (order_request ''u_1'')) ''total'' = Some (JNum 10)"
    "body_field (Some signup_request) ''name'' = Some (JStr ''Ana'')"
    "body_field (Some signup_request) ''email'' = Some (JStr ''ana@example.com'')"
    by (simp_all add: consumer_defs scenario_defs)
  note t = publish_failure_stays_local
    [where req_body = "Some (order_request ''u_1'')" and env = order_broker_down and st = warmed
       and user = "user_event ''u_1''" and user_error = None
       and order = "JObj [(''id'', JStr ''o_abc123'')]" and e = channel_closed
       and denv = cancel_broker_down
       and row = "JObj [(''id'', JStr ''o_abc123''), (''status'', JStr ''cancelled'')]"
       and order_id = "''o_abc123''"
       and user_body = "Some signup_request" and uenv = signup_broker_down
       and new_user = "user_event ''u_xyz789''" and ust = users_boot]
  from t o have r1: "post_order order_broker_down (Some (order_request ''u_1'')) warmed =
        (Replied (JNum 201) (JObj [(''id'', JStr ''o_abc123'')]),
         warmed\<lparr>effects := effects warmed @
               [DbWrite ''order.create''
                  (JObj [(''id'', JStr (''o_'' @ nanoid order_broker_down)),
                         (''userId'', or_null (body_field (Some (order_request ''u_1'')) ''userId'')),
                         (''items'', or_null (body_field (Some (order_request ''u_1'')) ''items'')),
                         (''total'', or_null (body_field (Some (order_request ''u_1'')) ''total''))]),
                ConsoleError ''[orders] publish error:'' channel_closed]\<rparr>)"
    by blast
  from t c o(7) have r2: "cancel_order cancel_broker_down ''o_abc123'' warmed =
        (Replied (JNum 200) (JObj [(''message'', JStr ''order cancelled''), (''id'', JStr ''o_abc123'')]),
         warmed\<lparr>effects := effects warmed @
               [DbWrite ''order.update''
                  (JObj [(''id'', JStr ''o_abc123''), (''status'', JStr ''cancelled'')]),
                ConsoleError ''[orders] publish error:'' channel_closed]\<rparr>)"
    by blast
  from t u have r3: "post_user signup_broker_down (Some signup_request) users_boot =
        (Replied (JNum 201) (user_event ''u_xyz789''),
         users_boot\<lparr>users_effects := users_effects users_boot @
               [DbWrite ''user.create''
                  (JObj [(''id'', JStr (''u_'' @ user_nanoid signup_broker_down)),
                         (''name'', or_null (body_field (Some signup_request) ''name'')),
                         (''email'', or_null (body_field (Some signup_request) ''email''))]),
                ConsoleError ''[users] publish error:'' channel_closed]\<rparr>)"
    by blast
  show ?thesis
    using o c u by (simp add: r1 r2 r3 v)
qed

end
